theory Spec2Isabelle
  imports Complex_Main "HOL-Library.Sublist"
begin

section \<open>SQL values and the string functions used by the engine\<close>

text \<open>
  The engine (recon_engine.py) is Python that sends SQL text to an in-memory
  database.  The embedding keeps the Python control flow (the order of the
  statements, the early returns, the raised errors) and gives each SQL
  statement the meaning the database gives it: tables are lists of rows,
  a cell is a value or NULL, and a predicate that evaluates to NULL selects
  nothing.  The model covers text columns and numeric columns; a numeric
  value is a \<open>real\<close>, so rounding and overflow of floating point are outside
  the model.  Strings are byte lists, so a character outside ASCII counts as
  several.  Table and column names are compared as written: the database
  ignores case in identifiers and rejects an unquoted name that is not a plain
  identifier, and neither is modelled; the examples use plain lower-case
  names.
\<close>

datatype sqlval = Null | NumV real | StrV string

datatype sqltype = VARCHAR | DOUBLE | FLOAT | BIGINT | INTEGER | HUGEINT

definition is_digit :: "char \<Rightarrow> bool" where
  "is_digit c = (c \<in> set ''0123456789'')"

definition digit_val :: "char \<Rightarrow> nat" where
  "digit_val c = of_char c - 48"

definition nat_of_digits :: "string \<Rightarrow> nat" where
  "nat_of_digits s = foldl (\<lambda>n c. 10 * n + digit_val c) 0 s"

text \<open>\<open>s LIKE p\<close>: \<open>%\<close> stands for any run of characters, \<open>_\<close> for exactly one;
  there is no escape character unless the statement names one (none does).
  The pattern is the first argument.\<close>

fun like_match :: "string \<Rightarrow> string \<Rightarrow> bool" where
  "like_match [] [] = True"
| "like_match [] (c # cs) = False"
| "like_match (p # ps) [] = (p = CHR ''%'' \<and> like_match ps [])"
| "like_match (p # ps) (c # cs) =
     (if p = CHR ''%'' then like_match ps (c # cs) \<or> like_match (p # ps) cs
      else (p = CHR ''_'' \<or> p = c) \<and> like_match ps cs)"

definition sql_like :: "string \<Rightarrow> string \<Rightarrow> bool" where
  "sql_like s p = like_match p s"

text \<open>\<open>TRIM(s)\<close> removes spaces at both ends; \<open>TRIM(BOTH cs FROM s)\<close> removes
  any of the characters of \<open>cs\<close> at both ends.\<close>

definition trim_both :: "string \<Rightarrow> string \<Rightarrow> string" where
  "trim_both cs s =
     rev (dropWhile (\<lambda>c. c \<in> set cs) (rev (dropWhile (\<lambda>c. c \<in> set cs) s)))"

definition sql_trim :: "string \<Rightarrow> string" where
  "sql_trim s = trim_both '' '' s"

text \<open>\<open>regexp_replace(s, '[^0-9.,-]', '', 'g')\<close> and \<open>REPLACE(s, ',', '')\<close>.\<close>

definition keep_amount_char :: "char \<Rightarrow> bool" where
  "keep_amount_char c =
     (is_digit c \<or> c = CHR ''.'' \<or> c = CHR '','' \<or> c = CHR ''-'')"

definition regexp_strip :: "string \<Rightarrow> string" where
  "regexp_strip s = filter keep_amount_char s"

definition remove_commas :: "string \<Rightarrow> string" where
  "remove_commas s = filter (\<lambda>c. c \<noteq> CHR '','') s"

text \<open>\<open>TRY_CAST(s AS DOUBLE)\<close> on the texts that reach it here, which hold only
  digits, periods and minus signs: an optional leading minus, digits with at
  most one period, at least one digit; anything else gives NULL.  (Exponents,
  infinities and blanks cannot occur after the two replacements.)\<close>

definition parse_decimal :: "string \<Rightarrow> (nat \<times> nat) option" where
  "parse_decimal s =
     (let ip = takeWhile is_digit s; rest = dropWhile is_digit s in
      case rest of
        [] \<Rightarrow> if ip = [] then None else Some (nat_of_digits ip, 0)
      | c # fp \<Rightarrow>
          if c = CHR ''.'' \<and> list_all is_digit fp \<and> (ip \<noteq> [] \<or> fp \<noteq> [])
          then Some (nat_of_digits (ip @ fp), length fp)
          else None)"

definition parse_unsigned :: "string \<Rightarrow> real option" where
  "parse_unsigned s =
     (case parse_decimal s of
        None \<Rightarrow> None
      | Some (m, k) \<Rightarrow> Some (real m / 10 ^ k))"

definition try_cast_double :: "string \<Rightarrow> sqlval" where
  "try_cast_double s =
     (case s of
        [] \<Rightarrow> Null
      | c # cs \<Rightarrow>
          if c = CHR ''-''
          then (case parse_unsigned cs of None \<Rightarrow> Null | Some x \<Rightarrow> NumV (- x))
          else (case parse_unsigned s of None \<Rightarrow> Null | Some x \<Rightarrow> NumV x))"

text \<open>\<open>-1 * v\<close>: NULL stays NULL.\<close>

definition sql_negate :: "sqlval \<Rightarrow> sqlval" where
  "sql_negate v = (case v of NumV x \<Rightarrow> NumV (-1 * x) | _ \<Rightarrow> Null)"

text \<open>\<open>SPLIT_PART(s, d, n)\<close> for a one-character delimiter: the n-th piece,
  counted from 1, and the empty string when there is no such piece.\<close>

fun split_on :: "char \<Rightarrow> string \<Rightarrow> string list" where
  "split_on d [] = [[]]"
| "split_on d (c # cs) =
     (if c = d then [] # split_on d cs
      else (case split_on d cs of
              [] \<Rightarrow> [[c]]
            | p # ps \<Rightarrow> (c # p) # ps))"

definition split_part :: "string \<Rightarrow> char \<Rightarrow> nat \<Rightarrow> string" where
  "split_part s d n =
     (let ps = split_on d s in
      if 1 \<le> n \<and> n \<le> length ps then ps ! (n - 1) else [])"

text \<open>\<open>LPAD(s, n, c)\<close>: pads on the left up to n characters and cuts a longer
  string down to its first n characters.  (The database counts characters, the
  model bytes: they agree on ASCII text.)\<close>

definition lpad :: "string \<Rightarrow> nat \<Rightarrow> char \<Rightarrow> string" where
  "lpad s n c = (if n \<le> length s then take n s else replicate (n - length s) c @ s)"

text \<open>\<open>TRY_CAST(s AS INTEGER)\<close> on plain integers: blanks around the text are
  ignored, then an optional sign and decimal digits, within 32 bits.  The
  database also reads decimal text (which it rounds), exponents, hexadecimal
  text and digit separators; the model covers none of these and gives NULL
  for them, so it stands for the database on texts of digits only, as the
  parts of the dates evaluated below are.\<close>

definition is_space :: "char \<Rightarrow> bool" where
  "is_space c = (c \<in> set [CHR '' '', CHR 0x09, CHR 0x0A, CHR 0x0B, CHR 0x0C, CHR 0x0D])"

definition in_int32 :: "int \<Rightarrow> int option" where
  "in_int32 i = (if - 2147483648 \<le> i \<and> i \<le> 2147483647 then Some i else None)"

definition try_cast_integer :: "string \<Rightarrow> int option" where
  "try_cast_integer s =
     (let t = rev (dropWhile is_space (rev (dropWhile is_space s))) in
      case t of
        [] \<Rightarrow> None
      | c # cs \<Rightarrow>
          if c = CHR ''-'' \<or> c = CHR ''+''
          then (if cs \<noteq> [] \<and> list_all is_digit cs
                then in_int32 ((if c = CHR ''-'' then -1 else 1) * int (nat_of_digits cs))
                else None)
          else (if list_all is_digit t then in_int32 (int (nat_of_digits t)) else None))"

text \<open>\<open>TRY_CAST(p AS INTEGER) > 12\<close> as a WHEN condition: NULL does not select
  the branch.\<close>

definition gt12 :: "string \<Rightarrow> bool" where
  "gt12 p = (case try_cast_integer p of None \<Rightarrow> False | Some i \<Rightarrow> i > 12)"

section \<open>The two value normalisers\<close>

text \<open>The CASE expression of \<open>clean_date_column\<close>, on the text that
  \<open>CAST(col AS VARCHAR)\<close> yields.\<close>

definition clean_date_text :: "string \<Rightarrow> string" where
  "clean_date_text s =
     (if sql_like s ''____-__-__'' then s
      else if sql_like s ''%/%/%'' then
        (let part1 = split_part s CHR ''/'' 1;
             part2 = split_part s CHR ''/'' 2;
             part3 = split_part s CHR ''/'' 3 in
         if gt12 part1
         then part3 @ ''-'' @ lpad part2 2 CHR ''0'' @ ''-'' @ lpad part1 2 CHR ''0''
         else if gt12 part2
         then part3 @ ''-'' @ lpad part1 2 CHR ''0'' @ ''-'' @ lpad part2 2 CHR ''0''
         else part3 @ ''-'' @ lpad part2 2 CHR ''0'' @ ''-'' @ lpad part1 2 CHR ''0'')
      else s)"

text \<open>The CASE expression of \<open>clean_amount_column\<close> on a text cell.\<close>

definition clean_amount_text :: "string \<Rightarrow> sqlval" where
  "clean_amount_text s =
     (if sql_like (sql_trim s) ''(%)''
      then sql_negate (try_cast_double
             (remove_commas (regexp_strip (trim_both ''()'' (sql_trim s)))))
      else try_cast_double (remove_commas (regexp_strip s)))"

section \<open>Tables, the store and the engine state\<close>

type_synonym row = "sqlval list"

record table =
  cols :: "(string \<times> sqltype) list"
  rows :: "row list"

type_synonym store = "string \<Rightarrow> table option"

record engine =
  conn :: store
  source_a_loaded :: bool
  source_b_loaded :: bool

text \<open>The errors a call can raise: the two \<open>ValueError\<close>s of the engine itself
  (the schema one carries the table and the two sets of its message), and the
  errors of the database.\<close>

datatype error =
    ValueError string
  | SchemaMismatch string "string set" "string set"
  | CatalogError
  | BinderError
  | ParserError
  | InvalidInputError
  | ConversionError
  | TypeError

definition new_engine :: engine where
  "new_engine = \<lparr>conn = Map.empty, source_a_loaded = False, source_b_loaded = False\<rparr>"

definition col_names :: "table \<Rightarrow> string list" where
  "col_names t = map fst (cols t)"

fun index_of :: "'a \<Rightarrow> 'a list \<Rightarrow> nat option" where
  "index_of x [] = None"
| "index_of x (y # ys) = (if x = y then Some 0 else map_option Suc (index_of x ys))"

definition remove_nth :: "nat \<Rightarrow> 'a list \<Rightarrow> 'a list" where
  "remove_nth i xs = take i xs @ drop (Suc i) xs"

text \<open>\<open>typeof(col)\<close> prints the declared type of the column.\<close>

fun type_name :: "sqltype \<Rightarrow> string" where
  "type_name VARCHAR = ''VARCHAR''"
| "type_name DOUBLE = ''DOUBLE''"
| "type_name FLOAT = ''FLOAT''"
| "type_name BIGINT = ''BIGINT''"
| "type_name INTEGER = ''INTEGER''"
| "type_name HUGEINT = ''HUGEINT''"

subsection \<open>The statements on one table\<close>

text \<open>\<open>ALTER TABLE t ADD COLUMN IF NOT EXISTS c ty\<close>: the new column is last and
  holds NULL in every row.\<close>

definition add_column_if_not_exists :: "string \<Rightarrow> sqltype \<Rightarrow> table \<Rightarrow> error + table" where
  "add_column_if_not_exists c ty t =
     (if c \<in> set (col_names t) then Inr t
      else Inr (t\<lparr>cols := cols t @ [(c, ty)], rows := map (\<lambda>r. r @ [Null]) (rows t)\<rparr>))"

text \<open>\<open>UPDATE t SET c = expr\<close>, the expression given as a function of the row.
  The cell takes the value of the expression (a conversion to the type of a
  column \<open>c\<close> that existed before with another type is not modelled).\<close>

definition update_set :: "string \<Rightarrow> (row \<Rightarrow> sqlval) \<Rightarrow> table \<Rightarrow> error + table" where
  "update_set c expr t =
     (case index_of c (col_names t) of
        None \<Rightarrow> Inl BinderError
      | Some i \<Rightarrow> Inr (t\<lparr>rows := map (\<lambda>r. r[i := expr r]) (rows t)\<rparr>))"

text \<open>\<open>ALTER TABLE t DROP COLUMN c\<close>: the last column of a table cannot be
  dropped.\<close>

definition drop_column :: "string \<Rightarrow> table \<Rightarrow> error + table" where
  "drop_column c t =
     (case index_of c (col_names t) of
        None \<Rightarrow> Inl BinderError
      | Some i \<Rightarrow>
          if length (cols t) \<le> 1 then Inl CatalogError
          else Inr (t\<lparr>cols := remove_nth i (cols t), rows := map (remove_nth i) (rows t)\<rparr>))"

text \<open>\<open>ALTER TABLE t RENAME COLUMN c TO d\<close>.\<close>

definition rename_column :: "string \<Rightarrow> string \<Rightarrow> table \<Rightarrow> error + table" where
  "rename_column c d t =
     (case index_of c (col_names t) of
        None \<Rightarrow> Inl BinderError
      | Some i \<Rightarrow>
          if d \<in> set (col_names t) then Inl CatalogError
          else Inr (t\<lparr>cols := (cols t)[i := (d, snd (cols t ! i))]\<rparr>))"

text \<open>One statement that rewrites the table \<open>tn\<close> of the store.  A statement
  that fails leaves the store as it was.\<close>

definition exec :: "engine \<Rightarrow> string \<Rightarrow> (table \<Rightarrow> error + table) \<Rightarrow> error + engine" where
  "exec e tn stmt =
     (case conn e tn of
        None \<Rightarrow> Inl CatalogError
      | Some t \<Rightarrow>
          (case stmt t of
             Inl err \<Rightarrow> Inl err
           | Inr t' \<Rightarrow> Inr (e\<lparr>conn := (conn e)(tn \<mapsto> t')\<rparr>)))"

text \<open>\<open>CREATE OR REPLACE TABLE tn AS ...\<close>, the query already evaluated.\<close>

definition create_or_replace :: "engine \<Rightarrow> string \<Rightarrow> table \<Rightarrow> engine" where
  "create_or_replace e tn t = e\<lparr>conn := (conn e)(tn \<mapsto> t)\<rparr>"

subsection \<open>Loading and reading\<close>

text \<open>\<open>load_csv\<close>: reading the file is the database's work, so the table read
  from the path is an argument.  The call stores it and sets the flag of the
  source it names.\<close>

definition load_csv :: "engine \<Rightarrow> table \<Rightarrow> string \<Rightarrow> (error + string list) \<times> engine" where
  "load_csv e content table_name =
     (let e1 = create_or_replace e table_name content;
          e2 = (if table_name = ''source_a'' then e1\<lparr>source_a_loaded := True\<rparr>
                else if table_name = ''source_b'' then e1\<lparr>source_b_loaded := True\<rparr>
                else e1)
      in (Inr (col_names content), e2))"


definition get_row_count :: "engine \<Rightarrow> string \<Rightarrow> error + nat" where
  "get_row_count e table_name =
     (case conn e table_name of
        None \<Rightarrow> Inl CatalogError
      | Some t \<Rightarrow> Inr (length (rows t)))"

section \<open>Column cleaning\<close>

text \<open>\<open>SELECT typeof(c) FROM t LIMIT 1\<close> followed by \<open>fetchone()\<close>: no row, so
  \<open>None\<close>, when the table is empty.\<close>

definition typeof_first :: "engine \<Rightarrow> string \<Rightarrow> string \<Rightarrow> error + string option" where
  "typeof_first e tn c =
     (case conn e tn of
        None \<Rightarrow> Inl CatalogError
      | Some t \<Rightarrow>
          (case index_of c (col_names t) of
             None \<Rightarrow> Inl BinderError
           | Some i \<Rightarrow>
               Inr (if rows t = [] then None else Some (type_name (snd (cols t ! i))))))"

text \<open>The UPDATE of \<open>clean_amount_column\<close>.  \<open>TRIM\<close> takes text only: on a
  column of another type the statement is rejected when it is bound.  A NULL
  cell gives NULL in both branches of the CASE.\<close>

definition clean_amount_value :: "sqlval \<Rightarrow> sqlval" where
  "clean_amount_value v = (case v of StrV s \<Rightarrow> clean_amount_text s | _ \<Rightarrow> Null)"

definition update_cleaned_amount :: "string \<Rightarrow> table \<Rightarrow> error + table" where
  "update_cleaned_amount c t =
     (case index_of c (col_names t) of
        None \<Rightarrow> Inl BinderError
      | Some i \<Rightarrow>
          if snd (cols t ! i) \<noteq> VARCHAR then Inl BinderError
          else update_set ''_cleaned_amount'' (\<lambda>r. clean_amount_value (r ! i)) t)"

text \<open>\<open>col_type and col_type[0] in ('DOUBLE', 'BIGINT', 'INTEGER', 'FLOAT')\<close>.\<close>

definition detected_numeric :: "string option \<Rightarrow> bool" where
  "detected_numeric col_type =
     (case col_type of
        None \<Rightarrow> False
      | Some ty \<Rightarrow> ty \<in> set [''DOUBLE'', ''BIGINT'', ''INTEGER'', ''FLOAT''])"

definition clean_amount_column :: "engine \<Rightarrow> string \<Rightarrow> string \<Rightarrow> (error + nat) \<times> engine" where
  "clean_amount_column e table_name column_name =
     (case typeof_first e table_name column_name of
        Inl err \<Rightarrow> (Inl err, e)
      | Inr col_type \<Rightarrow>
          if detected_numeric col_type
          then (Inr 0, e)
          else
            (case exec e table_name (add_column_if_not_exists ''_cleaned_amount'' DOUBLE) of
               Inl err \<Rightarrow> (Inl err, e)
             | Inr e1 \<Rightarrow>
            (case exec e1 table_name (update_cleaned_amount column_name) of
               Inl err \<Rightarrow> (Inl err, e1)
             | Inr e2 \<Rightarrow>
            (case exec e2 table_name (drop_column column_name) of
               Inl err \<Rightarrow> (Inl err, e2)
             | Inr e3 \<Rightarrow>
            (case exec e3 table_name (rename_column ''_cleaned_amount'' column_name) of
               Inl err \<Rightarrow> (Inl err, e3)
             | Inr e4 \<Rightarrow>
            (case get_row_count e4 table_name of
               Inl err \<Rightarrow> (Inl err, e4)
             | Inr n \<Rightarrow> (Inr n, e4)))))))"

text \<open>The UPDATE of \<open>clean_date_column\<close>.  \<open>CAST(col AS VARCHAR)\<close> keeps text and
  NULL; how the database prints a number is its own matter and is taken as the
  parameter \<open>num_text\<close>.\<close>

definition cast_varchar :: "(real \<Rightarrow> string) \<Rightarrow> sqlval \<Rightarrow> sqlval" where
  "cast_varchar num_text v =
     (case v of Null \<Rightarrow> Null | StrV s \<Rightarrow> StrV s | NumV x \<Rightarrow> StrV (num_text x))"

definition clean_date_value :: "(real \<Rightarrow> string) \<Rightarrow> sqlval \<Rightarrow> sqlval" where
  "clean_date_value num_text v =
     (case cast_varchar num_text v of StrV s \<Rightarrow> StrV (clean_date_text s) | _ \<Rightarrow> Null)"

definition update_cleaned_date :: "(real \<Rightarrow> string) \<Rightarrow> string \<Rightarrow> table \<Rightarrow> error + table" where
  "update_cleaned_date num_text c t =
     (case index_of c (col_names t) of
        None \<Rightarrow> Inl BinderError
      | Some i \<Rightarrow> update_set ''_cleaned_date'' (\<lambda>r. clean_date_value num_text (r ! i)) t)"

definition clean_date_column ::
  "(real \<Rightarrow> string) \<Rightarrow> engine \<Rightarrow> string \<Rightarrow> string \<Rightarrow> (error + nat) \<times> engine" where
  "clean_date_column num_text e table_name column_name =
     (case exec e table_name (add_column_if_not_exists ''_cleaned_date'' VARCHAR) of
        Inl err \<Rightarrow> (Inl err, e)
      | Inr e1 \<Rightarrow>
     (case exec e1 table_name (update_cleaned_date num_text column_name) of
        Inl err \<Rightarrow> (Inl err, e1)
      | Inr e2 \<Rightarrow>
     (case exec e2 table_name (drop_column column_name) of
        Inl err \<Rightarrow> (Inl err, e2)
      | Inr e3 \<Rightarrow>
     (case exec e3 table_name (rename_column ''_cleaned_date'' column_name) of
        Inl err \<Rightarrow> (Inl err, e3)
      | Inr e4 \<Rightarrow>
     (case get_row_count e4 table_name of
        Inl err \<Rightarrow> (Inl err, e4)
      | Inr n \<Rightarrow> (Inr n, e4))))))"

section \<open>Reconciliation\<close>

record ReconConfig =
  source_a_path :: string
  source_b_path :: string
  output_dir :: string
  match_key :: string
  amount_tolerance :: real
  date_col_a :: string
  date_col_b :: string
  amount_col_a :: string
  amount_col_b :: string
  description_col_a :: "string option"
  description_col_b :: "string option"

record ReconSummary =
  exact_matches :: nat
  matches_with_date_note :: nat
  amount_variances :: nat
  missing_in_b :: nat
  missing_in_a :: nat

definition total_matched :: "ReconSummary \<Rightarrow> nat" where
  "total_matched s = exact_matches s + matches_with_date_note s"

definition total_unmatched :: "ReconSummary \<Rightarrow> nat" where
  "total_unmatched s = amount_variances s + missing_in_b s + missing_in_a s"

record ReconResult =
  config :: ReconConfig
  summary :: ReconSummary

subsection \<open>Three-valued predicates\<close>

text \<open>A comparison with NULL on either side is NULL (\<open>None\<close>); a WHERE or ON
  clause keeps a row only when its condition is true.\<close>

definition sql_eq :: "sqlval \<Rightarrow> sqlval \<Rightarrow> bool option" where
  "sql_eq x y = (if x = Null \<or> y = Null then None else Some (x = y))"

definition sql_neq :: "sqlval \<Rightarrow> sqlval \<Rightarrow> bool option" where
  "sql_neq x y = (if x = Null \<or> y = Null then None else Some (x \<noteq> y))"

definition sql_and :: "bool option \<Rightarrow> bool option \<Rightarrow> bool option" where
  "sql_and p q =
     (if p = Some False \<or> q = Some False then Some False
      else if p = Some True \<and> q = Some True then Some True
      else None)"

definition sql_or :: "bool option \<Rightarrow> bool option \<Rightarrow> bool option" where
  "sql_or p q =
     (if p = Some True \<or> q = Some True then Some True
      else if p = Some False \<and> q = Some False then Some False
      else None)"

definition is_true :: "bool option \<Rightarrow> bool" where
  "is_true p = (p = Some True)"

text \<open>\<open>ABS(x - y)\<close> and its comparison with the tolerance, on exact numbers
  (the database subtracts DOUBLEs, so a difference that lies on the tolerance
  only up to rounding can fall on the other side there).\<close>

definition abs_diff :: "sqlval \<Rightarrow> sqlval \<Rightarrow> sqlval" where
  "abs_diff x y =
     (case (x, y) of (NumV a, NumV b) \<Rightarrow> NumV (\<bar>a - b\<bar>) | _ \<Rightarrow> Null)"

definition num_le :: "sqlval \<Rightarrow> real \<Rightarrow> bool option" where
  "num_le v tol = (case v of NumV d \<Rightarrow> Some (d \<le> tol) | _ \<Rightarrow> None)"

definition num_gt :: "sqlval \<Rightarrow> real \<Rightarrow> bool option" where
  "num_gt v tol = (case v of NumV d \<Rightarrow> Some (d > tol) | _ \<Rightarrow> None)"

definition is_numeric :: "sqltype \<Rightarrow> bool" where
  "is_numeric ty = (ty \<noteq> VARCHAR)"

subsection \<open>The joins\<close>

text \<open>\<open>source_a a INNER JOIN source_b b ON a.k = b.k\<close>: every pair of rows whose
  keys compare equal; \<open>ka\<close> and \<open>kb\<close> are the positions of the key.\<close>

definition inner_join :: "nat \<Rightarrow> nat \<Rightarrow> row list \<Rightarrow> row list \<Rightarrow> (row \<times> row) list" where
  "inner_join ka kb ra rb =
     concat (map (\<lambda>a. map (\<lambda>b. (a, b)) (filter (\<lambda>b. is_true (sql_eq (a ! ka) (b ! kb))) rb)) ra)"

text \<open>\<open>LEFT JOIN\<close>: a row of the left table without a partner is kept once, with
  NULLs (\<open>None\<close>) on the right.\<close>

definition left_join :: "nat \<Rightarrow> nat \<Rightarrow> row list \<Rightarrow> row list \<Rightarrow> (row \<times> row option) list" where
  "left_join ka kb ra rb =
     concat (map (\<lambda>a.
       (case filter (\<lambda>b. is_true (sql_eq (a ! ka) (b ! kb))) rb of
          [] \<Rightarrow> [(a, None)]
        | ms \<Rightarrow> map (\<lambda>b. (a, Some b)) ms)) ra)"

text \<open>\<open>SELECT l.* ... LEFT JOIN ... WHERE r.k IS NULL\<close>.\<close>

definition anti_rows :: "nat \<Rightarrow> nat \<Rightarrow> row list \<Rightarrow> row list \<Rightarrow> row list" where
  "anti_rows ka kb ra rb =
     map fst (filter (\<lambda>(a, bo). (case bo of None \<Rightarrow> True | Some b \<Rightarrow> b ! kb = Null))
       (left_join ka kb ra rb))"

subsection \<open>The positions and types the five queries need\<close>

record bound =
  key_a :: nat
  key_b :: nat
  dt_a :: nat
  dt_b :: nat
  amt_a :: nat
  amt_b :: nat
  dsc_a :: "nat option"
  dsc_b :: "nat option"

text \<open>A description column is selected only when the configuration names one
  (\<open>if desc_a\<close>: neither \<open>None\<close> nor the empty string).\<close>

definition bind_desc :: "string option \<Rightarrow> table \<Rightarrow> error + nat option" where
  "bind_desc d t =
     (case d of
        None \<Rightarrow> Inr None
      | Some c \<Rightarrow>
          if c = [] then Inr None
          else (case index_of c (col_names t) of
                  None \<Rightarrow> Inl BinderError
                | Some i \<Rightarrow> Inr (Some i)))"

text \<open>Binding the columns of the three join queries: every named column must
  exist in its table, and the subtraction needs numeric amounts.  The
  description columns are passed in already bound, since only the three join
  queries name them.\<close>

definition bind_join ::
  "ReconConfig \<Rightarrow> table \<Rightarrow> table \<Rightarrow> error + bound" where
  "bind_join cfg ta tb =
     (case (index_of (match_key cfg) (col_names ta), index_of (match_key cfg) (col_names tb),
            index_of (date_col_a cfg) (col_names ta), index_of (date_col_b cfg) (col_names tb),
            index_of (amount_col_a cfg) (col_names ta), index_of (amount_col_b cfg) (col_names tb),
            bind_desc (description_col_a cfg) ta, bind_desc (description_col_b cfg) tb) of
        (Some ka, Some kb, Some da, Some db, Some aa, Some ab, Inr xa, Inr xb) \<Rightarrow>
          if is_numeric (snd (cols ta ! aa)) \<and> is_numeric (snd (cols tb ! ab))
          then Inr \<lparr>key_a = ka, key_b = kb, dt_a = da, dt_b = db,
                    amt_a = aa, amt_b = ab, dsc_a = xa, dsc_b = xb\<rparr>
          else Inl BinderError
      | _ \<Rightarrow> Inl BinderError)"

definition desc_cell :: "nat option \<Rightarrow> row \<Rightarrow> sqlval" where
  "desc_cell d r = (case d of None \<Rightarrow> Null | Some i \<Rightarrow> r ! i)"

definition desc_type :: "nat option \<Rightarrow> table \<Rightarrow> sqltype" where
  "desc_type d t = (case d of None \<Rightarrow> INTEGER | Some i \<Rightarrow> snd (cols t ! i))"

text \<open>The select list shared by the three join queries.\<close>

definition pair_cells :: "bound \<Rightarrow> row \<times> row \<Rightarrow> row" where
  "pair_cells bd p =
     (case p of (a, b) \<Rightarrow>
        [a ! key_a bd, a ! dt_a bd, b ! dt_b bd, a ! amt_a bd, b ! amt_b bd])"

definition pair_descs :: "bound \<Rightarrow> row \<times> row \<Rightarrow> row" where
  "pair_descs bd p =
     (case p of (a, b) \<Rightarrow> [desc_cell (dsc_a bd) a, desc_cell (dsc_b bd) b])"

definition pair_cols :: "bound \<Rightarrow> table \<Rightarrow> table \<Rightarrow> (string \<times> sqltype) list" where
  "pair_cols bd ta tb =
     [(''match_key'', snd (cols ta ! key_a bd)),
      (''date_a'', snd (cols ta ! dt_a bd)),
      (''date_b'', snd (cols tb ! dt_b bd)),
      (''amount_a'', snd (cols ta ! amt_a bd)),
      (''amount_b'', snd (cols tb ! amt_b bd))]"

definition desc_cols :: "bound \<Rightarrow> table \<Rightarrow> table \<Rightarrow> (string \<times> sqltype) list" where
  "desc_cols bd ta tb =
     [(''description_a'', desc_type (dsc_a bd) ta),
      (''description_b'', desc_type (dsc_b bd) tb)]"

text \<open>The three WHERE clauses.\<close>

definition where_exact :: "bound \<Rightarrow> real \<Rightarrow> row \<times> row \<Rightarrow> bool" where
  "where_exact bd tolerance p =
     (case p of (a, b) \<Rightarrow>
        is_true (sql_and (sql_eq (a ! dt_a bd) (b ! dt_b bd))
                         (num_le (abs_diff (a ! amt_a bd) (b ! amt_b bd)) tolerance)))"

definition where_date_note :: "bound \<Rightarrow> real \<Rightarrow> row \<times> row \<Rightarrow> bool" where
  "where_date_note bd tolerance p =
     (case p of (a, b) \<Rightarrow>
        is_true (sql_and (sql_neq (a ! dt_a bd) (b ! dt_b bd))
                         (num_le (abs_diff (a ! amt_a bd) (b ! amt_b bd)) tolerance)))"

definition where_variance :: "bound \<Rightarrow> real \<Rightarrow> row \<times> row \<Rightarrow> bool" where
  "where_variance bd tolerance p =
     (case p of (a, b) \<Rightarrow>
        is_true (num_gt (abs_diff (a ! amt_a bd) (b ! amt_b bd)) tolerance))"

definition joined :: "bound \<Rightarrow> table \<Rightarrow> table \<Rightarrow> (row \<times> row) list" where
  "joined bd ta tb = inner_join (key_a bd) (key_b bd) (rows ta) (rows tb)"

subsection \<open>The five queries\<close>

definition q_exact_matches :: "ReconConfig \<Rightarrow> table \<Rightarrow> table \<Rightarrow> error + table" where
  "q_exact_matches cfg ta tb =
     (case bind_join cfg ta tb of
        Inl err \<Rightarrow> Inl err
      | Inr bd \<Rightarrow>
          Inr \<lparr>cols = pair_cols bd ta tb @ desc_cols bd ta tb,
               rows = map (\<lambda>p. pair_cells bd p @ pair_descs bd p)
                        (filter (where_exact bd (amount_tolerance cfg)) (joined bd ta tb))\<rparr>)"

definition q_matches_with_date_note :: "ReconConfig \<Rightarrow> table \<Rightarrow> table \<Rightarrow> error + table" where
  "q_matches_with_date_note cfg ta tb =
     (case bind_join cfg ta tb of
        Inl err \<Rightarrow> Inl err
      | Inr bd \<Rightarrow>
          Inr \<lparr>cols = pair_cols bd ta tb @ desc_cols bd ta tb @ [(''note'', VARCHAR)],
               rows = map (\<lambda>p. pair_cells bd p @ pair_descs bd p @ [StrV ''Date mismatch''])
                        (filter (where_date_note bd (amount_tolerance cfg)) (joined bd ta tb))\<rparr>)"

definition q_amount_variances :: "ReconConfig \<Rightarrow> table \<Rightarrow> table \<Rightarrow> error + table" where
  "q_amount_variances cfg ta tb =
     (case bind_join cfg ta tb of
        Inl err \<Rightarrow> Inl err
      | Inr bd \<Rightarrow>
          Inr \<lparr>cols = pair_cols bd ta tb @ [(''variance'', DOUBLE)] @ desc_cols bd ta tb,
               rows = map (\<lambda>p. pair_cells bd p
                                @ [abs_diff (fst p ! amt_a bd) (snd p ! amt_b bd)]
                                @ pair_descs bd p)
                        (filter (where_variance bd (amount_tolerance cfg)) (joined bd ta tb))\<rparr>)"

text \<open>The two anti-joins name the key only.\<close>

definition q_missing :: "string \<Rightarrow> table \<Rightarrow> table \<Rightarrow> error + table" where
  "q_missing k tleft tright =
     (case (index_of k (col_names tleft), index_of k (col_names tright)) of
        (Some kl, Some kr) \<Rightarrow>
          Inr \<lparr>cols = cols tleft, rows = anti_rows kl kr (rows tleft) (rows tright)\<rparr>
      | _ \<Rightarrow> Inl BinderError)"

text \<open>A \<open>CREATE OR REPLACE TABLE out AS\<close> query over the two sources.\<close>

definition create_from_sources ::
  "engine \<Rightarrow> string \<Rightarrow> (table \<Rightarrow> table \<Rightarrow> error + table) \<Rightarrow> error + engine" where
  "create_from_sources e out q =
     (case (conn e ''source_a'', conn e ''source_b'') of
        (Some ta, Some tb) \<Rightarrow>
          (case q ta tb of
             Inl err \<Rightarrow> Inl err
           | Inr t \<Rightarrow> Inr (create_or_replace e out t))
      | _ \<Rightarrow> Inl CatalogError)"

definition count_of :: "engine \<Rightarrow> string \<Rightarrow> nat" where
  "count_of e tn = (case get_row_count e tn of Inl err \<Rightarrow> 0 | Inr n \<Rightarrow> n)"

definition reconcile :: "engine \<Rightarrow> ReconConfig \<Rightarrow> (error + ReconResult) \<times> engine" where
  "reconcile e cfg =
     (if \<not> source_a_loaded e \<or> \<not> source_b_loaded e
      then (Inl (ValueError ''Both source files must be loaded before reconciliation''), e)
      else
        (case create_from_sources e ''exact_matches'' (q_exact_matches cfg) of
           Inl err \<Rightarrow> (Inl err, e)
         | Inr e1 \<Rightarrow>
        (case create_from_sources e1 ''matches_with_date_note'' (q_matches_with_date_note cfg) of
           Inl err \<Rightarrow> (Inl err, e1)
         | Inr e2 \<Rightarrow>
        (case create_from_sources e2 ''amount_variances'' (q_amount_variances cfg) of
           Inl err \<Rightarrow> (Inl err, e2)
         | Inr e3 \<Rightarrow>
        (case create_from_sources e3 ''missing_in_b'' (\<lambda>ta tb. q_missing (match_key cfg) ta tb) of
           Inl err \<Rightarrow> (Inl err, e3)
         | Inr e4 \<Rightarrow>
        (case create_from_sources e4 ''missing_in_a'' (\<lambda>ta tb. q_missing (match_key cfg) tb ta) of
           Inl err \<Rightarrow> (Inl err, e4)
         | Inr e5 \<Rightarrow>
             (Inr \<lparr>config = cfg,
                   summary = \<lparr>exact_matches = count_of e5 ''exact_matches'',
                              matches_with_date_note = count_of e5 ''matches_with_date_note'',
                              amount_variances = count_of e5 ''amount_variances'',
                              missing_in_b = count_of e5 ''missing_in_b'',
                              missing_in_a = count_of e5 ''missing_in_a''\<rparr>\<rparr>, e5)))))))"

section \<open>Union\<close>




section \<open>Filter\<close>

text \<open>A condition is the dictionary \<open>{column, operator, value}\<close>; the operator
  may be absent (\<open>cond.get('operator', 'equals')\<close>); the value is one value or
  a list.\<close>

datatype pyvalue = Scalar sqlval | Seq "sqlval list"

record condition =
  column :: string
  operator :: "string option"
  cvalue :: pyvalue

datatype where_op = W_between | W_equals | W_like | W_gt | W_lt | W_gte | W_lte

text \<open>\<open>f'%{value}%'\<close>: a string is inserted as it is; how Python prints any
  other value is the parameter \<open>py_str\<close>.\<close>

definition format_value :: "(pyvalue \<Rightarrow> string) \<Rightarrow> pyvalue \<Rightarrow> string" where
  "format_value py_str v = (case v of Scalar (StrV s) \<Rightarrow> s | _ \<Rightarrow> py_str v)"

text \<open>One turn of the loop over the conditions: the placeholders appended to
  \<open>where_parts\<close> and the values appended to \<open>params\<close>.  \<open>params.extend\<close> takes a
  list (or the characters of a string) and fails on anything else; an unknown
  operator appends nothing.\<close>

definition build_condition ::
  "(pyvalue \<Rightarrow> string) \<Rightarrow> condition \<Rightarrow> error + ((string \<times> where_op) list \<times> pyvalue list)" where
  "build_condition py_str cond =
     (let op = (case operator cond of None \<Rightarrow> ''equals'' | Some x \<Rightarrow> x);
          c = column cond; v = cvalue cond in
      if op = ''between'' then
        (case v of
           Seq vs \<Rightarrow> Inr ([(c, W_between)], map Scalar vs)
         | Scalar (StrV s) \<Rightarrow> Inr ([(c, W_between)], map (\<lambda>x. Scalar (StrV [x])) s)
         | Scalar _ \<Rightarrow> Inl TypeError)
      else if op = ''equals'' then Inr ([(c, W_equals)], [v])
      else if op = ''contains''
      then Inr ([(c, W_like)], [Scalar (StrV (''%'' @ format_value py_str v @ ''%''))])
      else if op = ''gt'' then Inr ([(c, W_gt)], [v])
      else if op = ''lt'' then Inr ([(c, W_lt)], [v])
      else if op = ''gte'' then Inr ([(c, W_gte)], [v])
      else if op = ''lte'' then Inr ([(c, W_lte)], [v])
      else Inr ([], []))"

fun build_where ::
  "(pyvalue \<Rightarrow> string) \<Rightarrow> condition list \<Rightarrow> error + ((string \<times> where_op) list \<times> pyvalue list)" where
  "build_where py_str [] = Inr ([], [])"
| "build_where py_str (cond # conds) =
     (case build_condition py_str cond of
        Inl err \<Rightarrow> Inl err
      | Inr (ws, ps) \<Rightarrow>
          (case build_where py_str conds of
             Inl err \<Rightarrow> Inl err
           | Inr (ws', ps') \<Rightarrow> Inr (ws @ ws', ps @ ps')))"

text \<open>The parameters fill the placeholders from left to right; there must be
  exactly as many as placeholders.\<close>

definition arity :: "where_op \<Rightarrow> nat" where
  "arity w = (if w = W_between then 2 else 1)"

fun bind_params ::
  "(string \<times> where_op) list \<Rightarrow> pyvalue list \<Rightarrow> error + (string \<times> where_op \<times> pyvalue list) list" where
  "bind_params [] ps = (if ps = [] then Inr [] else Inl InvalidInputError)"
| "bind_params ((c, w) # ws) ps =
     (if length ps < arity w then Inl InvalidInputError
      else (case bind_params ws (drop (arity w) ps) of
              Inl err \<Rightarrow> Inl err
            | Inr bs \<Rightarrow> Inr ((c, w, take (arity w) ps) # bs)))"

text \<open>Comparisons.  Values of one kind compare by their order (numbers as
  numbers, text byte by byte); NULL on either side gives NULL.\<close>

fun str_less :: "string \<Rightarrow> string \<Rightarrow> bool" where
  "str_less [] [] = False"
| "str_less [] (d # ds) = True"
| "str_less (c # cs) [] = False"
| "str_less (c # cs) (d # ds) =
     (if c = d then str_less cs ds else (of_char c :: nat) < of_char d)"

definition val_less :: "sqlval \<Rightarrow> sqlval \<Rightarrow> bool option" where
  "val_less x y =
     (case (x, y) of
        (NumV a, NumV b) \<Rightarrow> Some (a < b)
      | (StrV a, StrV b) \<Rightarrow> Some (str_less a b)
      | _ \<Rightarrow> None)"

definition val_le :: "sqlval \<Rightarrow> sqlval \<Rightarrow> bool option" where
  "val_le x y = sql_or (val_less x y) (sql_eq x y)"

text \<open>A parameter must be a single value of the kind of the column (the
  database would first try to convert a value of another kind; that conversion
  is not modelled and counts as a failure).  \<open>LIKE\<close> takes a text column.\<close>

definition param_ok :: "sqltype \<Rightarrow> where_op \<Rightarrow> pyvalue \<Rightarrow> error option" where
  "param_ok ty w p =
     (case p of
        Seq vs \<Rightarrow> Some ConversionError
      | Scalar Null \<Rightarrow> (if w = W_like \<and> ty \<noteq> VARCHAR then Some BinderError else None)
      | Scalar (NumV x) \<Rightarrow> (if ty = VARCHAR then Some ConversionError else None)
      | Scalar (StrV s) \<Rightarrow>
          (if ty = VARCHAR then None
           else if w = W_like then Some BinderError else Some ConversionError))"

definition scalar_of :: "pyvalue \<Rightarrow> sqlval" where
  "scalar_of p = (case p of Scalar v \<Rightarrow> v | Seq vs \<Rightarrow> Null)"

text \<open>The value of one placeholder expression on a cell.\<close>

definition eval_op :: "where_op \<Rightarrow> sqlval \<Rightarrow> sqlval list \<Rightarrow> bool option" where
  "eval_op w x ps =
     (case w of
        W_between \<Rightarrow> sql_and (val_le (ps ! 0) x) (val_le x (ps ! 1))
      | W_equals \<Rightarrow> sql_eq x (ps ! 0)
      | W_like \<Rightarrow> (case (x, ps ! 0) of (StrV s, StrV p) \<Rightarrow> Some (sql_like s p) | _ \<Rightarrow> None)
      | W_gt \<Rightarrow> val_less (ps ! 0) x
      | W_lt \<Rightarrow> val_less x (ps ! 0)
      | W_gte \<Rightarrow> val_le (ps ! 0) x
      | W_lte \<Rightarrow> val_le x (ps ! 0))"

text \<open>Binding the placeholder expressions to the table: each becomes a
  predicate on rows.\<close>

fun first_error :: "sqltype \<Rightarrow> where_op \<Rightarrow> pyvalue list \<Rightarrow> error option" where
  "first_error ty w [] = None"
| "first_error ty w (p # ps) =
     (case param_ok ty w p of Some err \<Rightarrow> Some err | None \<Rightarrow> first_error ty w ps)"

fun bind_where ::
  "table \<Rightarrow> (string \<times> where_op \<times> pyvalue list) list \<Rightarrow> error + (row \<Rightarrow> bool option) list" where
  "bind_where t [] = Inr []"
| "bind_where t ((c, w, ps) # bs) =
     (case index_of c (col_names t) of
        None \<Rightarrow> Inl BinderError
      | Some i \<Rightarrow>
          (case first_error (snd (cols t ! i)) w ps of
             Some err \<Rightarrow> Inl err
           | None \<Rightarrow>
               (case bind_where t bs of
                  Inl err \<Rightarrow> Inl err
                | Inr preds \<Rightarrow> Inr ((\<lambda>r. eval_op w (r ! i) (map scalar_of ps)) # preds))))"

text \<open>\<open>separator.join(where_parts)\<close>: the separator is read as the keyword
  \<open>AND\<close> or \<open>OR\<close>, in either case and with blanks around it.  No part at all
  leaves an empty WHERE clause, which does not parse; any other separator
  between two parts is taken not to parse either.\<close>

definition ascii_upper :: "char \<Rightarrow> char" where
  "ascii_upper c =
     (let n = (of_char c :: nat) in if 97 \<le> n \<and> n \<le> 122 then char_of (n - 32) else c)"

definition keyword_of :: "string \<Rightarrow> string" where
  "keyword_of s = map ascii_upper (rev (dropWhile is_space (rev (dropWhile is_space s))))"

definition combine :: "string \<Rightarrow> (row \<Rightarrow> bool option) list \<Rightarrow> error + (row \<Rightarrow> bool option)" where
  "combine combine_mode preds =
     (case preds of
        [] \<Rightarrow> Inl ParserError
      | p # ps \<Rightarrow>
          if keyword_of combine_mode = ''AND''
          then Inr (\<lambda>r. foldl (\<lambda>acc q. sql_and acc (q r)) (p r) ps)
          else if keyword_of combine_mode = ''OR''
          then Inr (\<lambda>r. foldl (\<lambda>acc q. sql_or acc (q r)) (p r) ps)
          else if ps = [] then Inr p
          else Inl ParserError)"

definition filter_data ::
  "(pyvalue \<Rightarrow> string) \<Rightarrow> engine \<Rightarrow> string \<Rightarrow> condition list \<Rightarrow> string \<Rightarrow> string
     \<Rightarrow> (error + nat) \<times> engine" where
  "filter_data py_str e table_name conditions output_table combine_mode =
     (if conditions = [] then
        (case conn e table_name of
           None \<Rightarrow> (Inl CatalogError, e)
         | Some t \<Rightarrow>
             (let e1 = create_or_replace e output_table t in
              case get_row_count e1 output_table of
                Inl err \<Rightarrow> (Inl err, e1)
              | Inr n \<Rightarrow> (Inr n, e1)))
      else
        (case build_where py_str conditions of
           Inl err \<Rightarrow> (Inl err, e)
         | Inr (where_parts, params) \<Rightarrow>
        (case conn e table_name of
           None \<Rightarrow> (Inl CatalogError, e)
         | Some t \<Rightarrow>
        (case bind_params where_parts params of
           Inl err \<Rightarrow> (Inl err, e)
         | Inr bs \<Rightarrow>
        (case bind_where t bs of
           Inl err \<Rightarrow> (Inl err, e)
         | Inr preds \<Rightarrow>
        (case combine combine_mode preds of
           Inl err \<Rightarrow> (Inl err, e)
         | Inr pred \<Rightarrow>
             (let e1 = create_or_replace e output_table
                         \<lparr>cols = cols t, rows = filter (\<lambda>r. is_true (pred r)) (rows t)\<rparr> in
              case get_row_count e1 output_table of
                Inl err \<Rightarrow> (Inl err, e1)
              | Inr n \<Rightarrow> (Inr n, e1))))))))"

section \<open>Example data\<close>

text \<open>Two small sources: key 1 is on both sides with equal amounts and
  different dates, key 2 is only in A, key 3 is on both sides but its amount in
  A is NULL (as \<open>clean_amount_column\<close> leaves it for a text that does not
  parse).\<close>

definition demo_a :: table where
  "demo_a = \<lparr>cols = [(''id'', BIGINT), (''date'', VARCHAR), (''amt'', DOUBLE)],
              rows = [[NumV 1, StrV ''2024-01-01'', NumV 100],
                      [NumV 2, StrV ''2024-01-05'', NumV 50],
                      [NumV 3, StrV ''2024-02-01'', Null]]\<rparr>"

definition demo_b :: table where
  "demo_b = \<lparr>cols = [(''id'', BIGINT), (''date'', VARCHAR), (''amt'', DOUBLE)],
              rows = [[NumV 1, StrV ''2024-01-02'', NumV 100],
                      [NumV 3, StrV ''2024-02-01'', NumV 70]]\<rparr>"

definition demo_cfg :: ReconConfig where
  "demo_cfg = \<lparr>source_a_path = ''a.csv'', source_b_path = ''b.csv'', output_dir = ''out'',
     match_key = ''id'', amount_tolerance = 0, date_col_a = ''date'', date_col_b = ''date'',
     amount_col_a = ''amt'', amount_col_b = ''amt'',
     description_col_a = None, description_col_b = None\<rparr>"

definition demo_engine :: engine where
  "demo_engine =
     snd (load_csv (snd (load_csv new_engine demo_a ''source_a'')) demo_b ''source_b'')"

definition demo_summary :: ReconSummary where
  "demo_summary = \<lparr>exact_matches = 0, matches_with_date_note = 1, amount_variances = 0,
                    missing_in_b = 1, missing_in_a = 0\<rparr>"

section \<open>More example data\<close>


definition demo_amounts :: table where
  "demo_amounts = \<lparr>cols = [(''id'', BIGINT), (''amount'', VARCHAR)],
                    rows = [[NumV 1, StrV ''$1,234.56''],
                            [NumV 2, StrV ''(100)''],
                            [NumV 3, StrV ''  42 ''],
                            [NumV 4, StrV ''n/a'']]\<rparr>"


definition demo_names :: table where
  "demo_names = \<lparr>cols = [(''name'', VARCHAR)],
                  rows = [[StrV ''abc''], [StrV ''a_c''], [StrV '''']]\<rparr>"

definition contains_cond :: "string \<Rightarrow> string \<Rightarrow> condition" where
  "contains_cond c s = \<lparr>column = c, operator = Some ''contains'', cvalue = Scalar (StrV s)\<rparr>"

text \<open>The output of an aggregation: \<open>SUM\<close> over a BIGINT column has the type
  HUGEINT.  And a table with a numeric column and no row.\<close>

definition demo_agg :: table where
  "demo_agg = \<lparr>cols = [(''branch'', VARCHAR), (''total_amount'', HUGEINT)],
                rows = [[StrV ''north'', NumV 300]]\<rparr>"

definition demo_empty :: table where
  "demo_empty = \<lparr>cols = [(''id'', BIGINT), (''amount'', DOUBLE)], rows = []\<rparr>"

definition engine_with :: "string \<Rightarrow> table \<Rightarrow> engine" where
  "engine_with n t = \<lparr>conn = [n \<mapsto> t], source_a_loaded = False, source_b_loaded = False\<rparr>"





text \<open>A text column with the documented dates, and one with a value of four
  parts next to a value without slashes.\<close>

definition demo_dates :: table where
  "demo_dates = \<lparr>cols = [(''id'', BIGINT), (''date'', VARCHAR)],
                  rows = [[NumV 1, StrV ''2024-03-05''],
                          [NumV 2, StrV ''25/03/2024''],
                          [NumV 3, StrV ''03/25/2024''],
                          [NumV 4, StrV ''03/04/2024''],
                          [NumV 5, StrV ''5/3/2024'']]\<rparr>"

definition demo_dates_cleaned :: table where
  "demo_dates_cleaned = \<lparr>cols = [(''id'', BIGINT), (''date'', VARCHAR)],
                          rows = [[NumV 1, StrV ''2024-03-05''],
                                  [NumV 2, StrV ''2024-03-25''],
                                  [NumV 3, StrV ''2024-03-25''],
                                  [NumV 4, StrV ''2024-04-03''],
                                  [NumV 5, StrV ''2024-03-05'']]\<rparr>"

definition demo_odd_dates :: table where
  "demo_odd_dates = \<lparr>cols = [(''date'', VARCHAR)],
                      rows = [[StrV ''1/1/3/4''], [StrV ''n/a'']]\<rparr>"

definition demo_odd_dates_cleaned :: table where
  "demo_odd_dates_cleaned = \<lparr>cols = [(''date'', VARCHAR)],
                              rows = [[StrV ''3-01-01''], [StrV ''n/a'']]\<rparr>"

section \<open>Proved properties\<close>

subsection \<open>Date normalisation on the documented inputs\<close>

lemmas date_defs = clean_date_text_def sql_like_def split_part_def lpad_def gt12_def
  try_cast_integer_def is_space_def in_int32_def is_digit_def nat_of_digits_def digit_val_def

lemmas date_column_defs = clean_date_column_def update_cleaned_date_def clean_date_value_def
  cast_varchar_def exec_def add_column_if_not_exists_def update_set_def drop_column_def
  rename_column_def get_row_count_def remove_nth_def col_names_def engine_with_def

text \<open>
  Claim C4.  \<open>clean_date_column\<close>, run on a text column that holds the
  documented inputs, succeeds and leaves the documented outputs in the column:
  an ISO date is kept, a first part above 12 is read as the day, a second part
  above 12 is read as the day (so the first is the month), an ambiguous date is
  read day first, and month and day are padded to two digits.  The same values
  are those of the CASE expression on each text.
\<close>

theorem date_examples:
  "clean_date_column num_text (engine_with ''t'' demo_dates) ''t'' ''date'' =
     (Inr 5, engine_with ''t'' demo_dates_cleaned) \<and>
   clean_date_text ''2024-03-05'' = ''2024-03-05'' \<and>
   clean_date_text ''25/03/2024'' = ''2024-03-25'' \<and>
   clean_date_text ''03/25/2024'' = ''2024-03-25'' \<and>
   clean_date_text ''03/04/2024'' = ''2024-04-03'' \<and>
   clean_date_text ''5/3/2024'' = ''2024-03-05''"
proof -
  have "clean_date_column num_text (engine_with ''t'' demo_dates) ''t'' ''date'' =
          (Inr 5, engine_with ''t'' demo_dates_cleaned)"
    by (simp add: date_column_defs date_defs demo_dates_def demo_dates_cleaned_def)
  moreover have
    "clean_date_text ''2024-03-05'' = ''2024-03-05'' \<and>
     clean_date_text ''25/03/2024'' = ''2024-03-25'' \<and>
     clean_date_text ''03/25/2024'' = ''2024-03-25'' \<and>
     clean_date_text ''03/04/2024'' = ''2024-04-03'' \<and>
     clean_date_text ''5/3/2024'' = ''2024-03-05''"
    by (simp add: date_defs)
  ultimately show ?thesis by simp
qed

subsection \<open>Reconciliation: the precondition and the frame\<close>

lemmas recon_defs = reconcile_def create_from_sources_def create_or_replace_def
  q_exact_matches_def q_matches_with_date_note_def q_amount_variances_def q_missing_def
  bind_join_def bind_desc_def col_names_def joined_def inner_join_def left_join_def
  anti_rows_def where_exact_def where_date_note_def where_variance_def sql_eq_def sql_neq_def
  sql_and_def is_true_def abs_diff_def num_le_def num_gt_def is_numeric_def count_of_def
  get_row_count_def pair_cells_def pair_descs_def pair_cols_def desc_cols_def desc_cell_def
  desc_type_def

lemma demo_engine_eq:
  "demo_engine = \<lparr>conn = [''source_a'' \<mapsto> demo_a, ''source_b'' \<mapsto> demo_b],
                   source_a_loaded = True, source_b_loaded = True\<rparr>"
  by (simp add: demo_engine_def load_csv_def new_engine_def create_or_replace_def)

lemma demo_reconcile_result:
  "fst (reconcile demo_engine demo_cfg) = Inr \<lparr>config = demo_cfg, summary = demo_summary\<rparr>"
  by (simp add: demo_engine_eq recon_defs demo_a_def demo_b_def demo_cfg_def demo_summary_def)

lemma demo_reconcile_pair:
  "reconcile demo_engine demo_cfg =
     (Inr \<lparr>config = demo_cfg, summary = demo_summary\<rparr>, snd (reconcile demo_engine demo_cfg))"
  using demo_reconcile_result by (simp add: prod_eq_iff)

text \<open>
  Claim C8.  A call of \<open>reconcile\<close> while one of the two sources has not been
  loaded raises the \<open>ValueError\<close> of the engine and leaves the whole engine
  state, hence every table of the store, as it was.
\<close>

theorem reconcile_not_loaded:
  assumes "\<not> source_a_loaded e \<or> \<not> source_b_loaded e"
  shows "reconcile e cfg =
           (Inl (ValueError ''Both source files must be loaded before reconciliation''), e)"
  using assms by (auto simp add: reconcile_def)

theorem reconcile_not_loaded_witness:
  "source_a_loaded (snd (load_csv new_engine demo_a ''source_a'')) \<and>
   \<not> source_b_loaded (snd (load_csv new_engine demo_a ''source_a'')) \<and>
   reconcile (snd (load_csv new_engine demo_a ''source_a'')) demo_cfg =
     (Inl (ValueError ''Both source files must be loaded before reconciliation''),
      snd (load_csv new_engine demo_a ''source_a''))"
proof -
  have a: "source_a_loaded (snd (load_csv new_engine demo_a ''source_a''))"
    and b: "\<not> source_b_loaded (snd (load_csv new_engine demo_a ''source_a''))"
    by (simp_all add: load_csv_def new_engine_def create_or_replace_def)
  from b have h: "\<not> source_a_loaded (snd (load_csv new_engine demo_a ''source_a'')) \<or>
                  \<not> source_b_loaded (snd (load_csv new_engine demo_a ''source_a''))"
    by simp
  from reconcile_not_loaded [OF h, of demo_cfg] a b show ?thesis by simp
qed

lemma create_from_sources_frame:
  assumes "create_from_sources e out q = Inr e'" and "n \<noteq> out"
  shows "conn e' n = conn e n"
  using assms
  by (auto simp add: create_from_sources_def create_or_replace_def
           split: option.splits sum.splits)

lemma create_from_sources_flags:
  assumes "create_from_sources e out q = Inr e'"
  shows "source_a_loaded e' = source_a_loaded e \<and> source_b_loaded e' = source_b_loaded e"
  using assms
  by (auto simp add: create_from_sources_def create_or_replace_def
           split: option.splits sum.splits)

text \<open>
  Claim C9.  A successful \<open>reconcile\<close> leaves the tables \<open>source_a\<close> and
  \<open>source_b\<close> of the store exactly as they were: the five statements write
  only the five result tables, so every table with another name is as it was,
  and so are the two flags.
\<close>

theorem reconcile_keeps_sources:
  assumes "reconcile e cfg = (Inr r, e')"
  shows "conn e' ''source_a'' = conn e ''source_a'' \<and>
         conn e' ''source_b'' = conn e ''source_b'' \<and>
         (\<forall>n. n \<notin> {''exact_matches'', ''matches_with_date_note'', ''amount_variances'',
                     ''missing_in_b'', ''missing_in_a''} \<longrightarrow> conn e' n = conn e n) \<and>
         source_a_loaded e' = source_a_loaded e \<and>
         source_b_loaded e' = source_b_loaded e"
proof -
  from assms obtain e1 e2 e3 e4 where
    s1: "create_from_sources e ''exact_matches'' (q_exact_matches cfg) = Inr e1" and
    s2: "create_from_sources e1 ''matches_with_date_note'' (q_matches_with_date_note cfg) = Inr e2" and
    s3: "create_from_sources e2 ''amount_variances'' (q_amount_variances cfg) = Inr e3" and
    s4: "create_from_sources e3 ''missing_in_b'' (\<lambda>ta tb. q_missing (match_key cfg) ta tb) = Inr e4" and
    s5: "create_from_sources e4 ''missing_in_a'' (\<lambda>ta tb. q_missing (match_key cfg) tb ta) = Inr e'"
    by (auto simp add: reconcile_def split: if_splits sum.splits)
  have "conn e' n = conn e n"
    if "n \<noteq> ''exact_matches''" "n \<noteq> ''matches_with_date_note''" "n \<noteq> ''amount_variances''"
       "n \<noteq> ''missing_in_b''" "n \<noteq> ''missing_in_a''" for n
    using that create_from_sources_frame [OF s1] create_from_sources_frame [OF s2]
      create_from_sources_frame [OF s3] create_from_sources_frame [OF s4]
      create_from_sources_frame [OF s5]
    by simp
  moreover have "source_a_loaded e' = source_a_loaded e \<and> source_b_loaded e' = source_b_loaded e"
    using create_from_sources_flags [OF s1] create_from_sources_flags [OF s2]
      create_from_sources_flags [OF s3] create_from_sources_flags [OF s4]
      create_from_sources_flags [OF s5]
    by simp
  ultimately show ?thesis by simp
qed

theorem reconcile_keeps_sources_witness:
  "reconcile demo_engine demo_cfg =
     (Inr \<lparr>config = demo_cfg, summary = demo_summary\<rparr>, snd (reconcile demo_engine demo_cfg)) \<and>
   conn (snd (reconcile demo_engine demo_cfg)) ''source_a'' = Some demo_a \<and>
   conn (snd (reconcile demo_engine demo_cfg)) ''source_b'' = Some demo_b"
  using reconcile_keeps_sources [OF demo_reconcile_pair] demo_reconcile_pair
  by (simp add: demo_engine_eq)

text \<open>
  Claim C1.  On the example sources two pairs of rows are joined on the key
  (keys 1 and 3), but the three tables for joined pairs hold one row together:
  the pair of key 3, whose amount in A is NULL, satisfies none of the three
  WHERE clauses and is in no result table.
\<close>

theorem reconcile_drops_null_pair:
  "fst (reconcile demo_engine demo_cfg) = Inr \<lparr>config = demo_cfg, summary = demo_summary\<rparr> \<and>
   exact_matches demo_summary + matches_with_date_note demo_summary
     + amount_variances demo_summary = 1 \<and>
   length (inner_join 0 0 (rows demo_a) (rows demo_b)) = 2"
  using demo_reconcile_result
  by (simp add: demo_summary_def inner_join_def demo_a_def demo_b_def sql_eq_def is_true_def)

theorem reconcile_drops_null_pair_witness:
  "exact_matches demo_summary + matches_with_date_note demo_summary
     + amount_variances demo_summary
   < length (inner_join 0 0 (rows demo_a) (rows demo_b))"
  using reconcile_drops_null_pair by simp

subsection \<open>Date normalisation: which values pass through\<close>

lemma like_any: "like_match ''%'' s"
  by (induction s) simp_all

lemma like_one_slash: "like_match ''%/%'' s = (CHR ''/'' \<in> set s)"
  by (induction s) (auto simp add: like_any)

lemma slash_count: "(CHR ''/'' \<in> set s) = (1 \<le> length (filter (\<lambda>c. c = CHR ''/'') s))"
  by (induction s) auto

lemma like_two_slashes:
  "like_match ''%/%/%'' s = (2 \<le> length (filter (\<lambda>c. c = CHR ''/'') s))"
  by (induction s) (auto simp add: like_one_slash slash_count)

lemma split_on_nonempty: "split_on d s \<noteq> []"
  by (induction s) (auto split: list.splits)

lemma length_split_on: "length (split_on d s) = Suc (length (filter (\<lambda>c. c = d) s))"
  by (induction s) (auto simp add: split_on_nonempty split: list.splits)

text \<open>A value with fewer than three parts is returned as it is, whichever
  branch takes it.\<close>

lemma few_parts_pass_through:
  assumes "length (split_on CHR ''/'' s) < 3"
  shows "clean_date_text s = s"
  using assms by (simp add: clean_date_text_def sql_like_def like_two_slashes length_split_on)

text \<open>
  Claim C3.  A text column holds \<open>1/1/3/4\<close>, which does not match the ISO
  pattern and splits at the slashes into four parts, not three, and \<open>n/a\<close>.
  \<open>clean_date_column\<close> keeps \<open>n/a\<close> but does not pass \<open>1/1/3/4\<close> through:
  the guard \<open>LIKE '%/%/%'\<close> of the slash branch takes it, and the column then
  holds \<open>3-01-01\<close>, built from the first three parts.
\<close>

theorem date_column_four_parts_rewritten:
  "clean_date_column num_text (engine_with ''t'' demo_odd_dates) ''t'' ''date'' =
     (Inr 2, engine_with ''t'' demo_odd_dates_cleaned) \<and>
   \<not> sql_like ''1/1/3/4'' ''____-__-__'' \<and>
   length (split_on CHR ''/'' ''1/1/3/4'') = 4 \<and>
   clean_date_text ''1/1/3/4'' = ''3-01-01''"
proof -
  have "clean_date_column num_text (engine_with ''t'' demo_odd_dates) ''t'' ''date'' =
          (Inr 2, engine_with ''t'' demo_odd_dates_cleaned)"
    by (simp add: date_column_defs date_defs demo_odd_dates_def demo_odd_dates_cleaned_def)
  moreover have
    "\<not> sql_like ''1/1/3/4'' ''____-__-__'' \<and>
     length (split_on CHR ''/'' ''1/1/3/4'') = 4 \<and>
     clean_date_text ''1/1/3/4'' = ''3-01-01''"
    by (simp add: date_defs)
  ultimately show ?thesis by simp
qed

subsection \<open>Amount normalisation\<close>


lemmas column_defs = typeof_first_def detected_numeric_def exec_def add_column_if_not_exists_def update_set_def
  drop_column_def rename_column_def get_row_count_def remove_nth_def col_names_def





subsection \<open>Filter: the contains operator\<close>

lemmas filter_defs = filter_data_def build_condition_def format_value_def arity_def
  param_ok_def scalar_of_def eval_op_def combine_def keyword_of_def ascii_upper_def is_space_def create_or_replace_def get_row_count_def
  col_names_def sql_like_def is_true_def sql_or_def sql_and_def

text \<open>
  Claim C6.  With the operand \<open>_\<close> the \<open>contains\<close> condition keeps the row
  \<open>abc\<close>, which does not contain an underscore: the operand is placed in the
  LIKE pattern as it is, and there \<open>_\<close> stands for any one character.  Of the
  three rows only the empty text is dropped.
\<close>

theorem contains_underscore_keeps_abc:
  "filter_data py
     \<lparr>conn = [''t'' \<mapsto> demo_names], source_a_loaded = False, source_b_loaded = False\<rparr>
     ''t'' [contains_cond ''name'' ''_''] ''out'' ''OR''
   = (Inr 2,
      \<lparr>conn = [''t'' \<mapsto> demo_names,
               ''out'' \<mapsto> \<lparr>cols = [(''name'', VARCHAR)],
                             rows = [[StrV ''abc''], [StrV ''a_c'']]\<rparr>],
       source_a_loaded = False, source_b_loaded = False\<rparr>) \<and>
   \<not> sublist ''_'' ''abc''"
  by (simp add: filter_defs demo_names_def contains_cond_def sublist_Cons_right)

subsection \<open>Amount normalisation of a column that is already numeric\<close>

lemma map_of_index_of:
  "map_of xs c = Some ty \<Longrightarrow> \<exists>i. index_of c (map fst xs) = Some i \<and> snd (xs ! i) = ty"
  by (induction xs) (auto split: if_splits)

text \<open>On a table with at least one row, a column whose declared type is one
  of the four names of the check is left alone: the call returns 0 and the
  engine is the one it was given.\<close>

lemma listed_numeric_untouched:
  assumes "conn e tn = Some t" and "rows t \<noteq> []"
    and "map_of (cols t) cn = Some ty" and "ty \<in> {DOUBLE, BIGINT, INTEGER, FLOAT}"
  shows "clean_amount_column e tn cn = (Inr 0, e)"
proof -
  from assms(3) obtain i where "index_of cn (col_names t) = Some i" "snd (cols t ! i) = ty"
    using map_of_index_of by (fastforce simp add: col_names_def)
  with assms show ?thesis
    by (auto simp add: clean_amount_column_def typeof_first_def detected_numeric_def)
qed

text \<open>
  Claim C2.  Two numeric columns that \<open>clean_amount_column\<close> does not leave
  alone.  The column \<open>total_amount\<close> of an aggregation has the type HUGEINT,
  which is not among the four names of the check; and on a table without rows
  \<open>fetchone()\<close> gives \<open>None\<close>, so the check is skipped for its DOUBLE column.
  In both runs the call goes on to the cleaning pass: it does not return 0, and
  the table has the column \<open>_cleaned_amount\<close> added when the UPDATE is
  rejected (\<open>TRIM\<close> of a number).
\<close>

theorem numeric_column_not_skipped:
  "typeof_first (engine_with ''agg'' demo_agg) ''agg'' ''total_amount'' = Inr (Some ''HUGEINT'') \<and>
   \<not> detected_numeric (Some ''HUGEINT'') \<and>
   typeof_first (engine_with ''t'' demo_empty) ''t'' ''amount'' = Inr None \<and>
   \<not> detected_numeric None \<and>
   fst (clean_amount_column (engine_with ''agg'' demo_agg) ''agg'' ''total_amount'')
     = Inl BinderError \<and>
   conn (snd (clean_amount_column (engine_with ''agg'' demo_agg) ''agg'' ''total_amount'')) ''agg''
     = Some \<lparr>cols = [(''branch'', VARCHAR), (''total_amount'', HUGEINT),
                      (''_cleaned_amount'', DOUBLE)],
             rows = [[StrV ''north'', NumV 300, Null]]\<rparr> \<and>
   fst (clean_amount_column (engine_with ''t'' demo_empty) ''t'' ''amount'')
     = Inl BinderError \<and>
   conn (snd (clean_amount_column (engine_with ''t'' demo_empty) ''t'' ''amount'')) ''t''
     = Some \<lparr>cols = [(''id'', BIGINT), (''amount'', DOUBLE), (''_cleaned_amount'', DOUBLE)],
             rows = []\<rparr>"
  by (simp add: clean_amount_column_def update_cleaned_amount_def column_defs
        demo_agg_def demo_empty_def engine_with_def)

text \<open>For comparison, the DOUBLE column of the first example source is
  skipped.\<close>

lemma demo_amount_skipped:
  "clean_amount_column demo_engine ''source_a'' ''amt'' = (Inr 0, demo_engine)"
proof -
  have "conn demo_engine ''source_a'' = Some demo_a"
    by (simp add: demo_engine_eq)
  moreover have "rows demo_a \<noteq> []" and "map_of (cols demo_a) ''amt'' = Some DOUBLE"
    by (simp_all add: demo_a_def)
  ultimately show ?thesis
    by (rule listed_numeric_untouched) simp
qed

subsection \<open>Union with validation\<close>



















subsection \<open>The count returned by the two cleaners\<close>

lemma index_of_Some: "index_of x xs = Some i \<Longrightarrow> i < length xs \<and> xs ! i = x"
  by (induction xs arbitrary: i) (auto split: if_splits)

lemma index_of_mem: "x \<in> set xs \<Longrightarrow> \<exists>i. index_of x xs = Some i"
  by (induction xs) auto

lemma index_of_map_of:
  "index_of c (map fst xs) = Some i \<Longrightarrow> map_of xs c = Some (snd (xs ! i))"
  by (induction xs arbitrary: i) (auto split: if_splits)

lemma remove_nth_0: "remove_nth 0 (x # xs) = xs"
  by (simp add: remove_nth_def)

lemma remove_nth_Suc: "remove_nth (Suc i) (x # xs) = x # remove_nth i xs"
  by (simp add: remove_nth_def)

lemma remove_nth_distinct:
  "distinct xs \<Longrightarrow> i < length xs \<Longrightarrow>
   set (remove_nth i xs) = set xs - {xs ! i} \<and> distinct (remove_nth i xs)"
proof (induction xs arbitrary: i)
  case Nil
  then show ?case by simp
next
  case (Cons x xs)
  show ?case
  proof (cases i)
    case 0
    with Cons.prems show ?thesis by (simp add: remove_nth_0)
  next
    case (Suc j)
    with Cons.prems have j: "j < length xs" "distinct xs" "x \<notin> set xs" by simp_all
    from Cons.IH [OF j(2) j(1)] have
      ih: "set (remove_nth j xs) = set xs - {xs ! j}" "distinct (remove_nth j xs)" by simp_all
    from j have "xs ! j \<in> set xs" by simp
    with j(3) have "x \<noteq> xs ! j" by blast
    with ih j(3) Suc show ?thesis
      by (auto simp add: remove_nth_Suc)
  qed
qed

lemma map_remove_nth: "map f (remove_nth i xs) = remove_nth i (map f xs)"
  unfolding remove_nth_def by (simp only: map_append take_map drop_map)

text \<open>Each of the four statements keeps the number of rows.\<close>

lemma add_column_rows:
  "add_column_if_not_exists c ty t = Inr t' \<Longrightarrow> length (rows t') = length (rows t)"
  by (auto simp add: add_column_if_not_exists_def split: if_splits)

lemma update_set_rows:
  "update_set c f t = Inr t' \<Longrightarrow> length (rows t') = length (rows t)"
  by (auto simp add: update_set_def split: option.splits)

lemma update_cleaned_amount_rows:
  "update_cleaned_amount c t = Inr t' \<Longrightarrow> length (rows t') = length (rows t)"
  by (auto simp add: update_cleaned_amount_def dest: update_set_rows split: option.splits if_splits)

lemma update_cleaned_date_rows:
  "update_cleaned_date nt c t = Inr t' \<Longrightarrow> length (rows t') = length (rows t)"
  by (auto simp add: update_cleaned_date_def dest: update_set_rows split: option.splits)

lemma drop_column_rows:
  "drop_column c t = Inr t' \<Longrightarrow> length (rows t') = length (rows t)"
  by (auto simp add: drop_column_def split: option.splits if_splits)

lemma rename_column_rows:
  "rename_column c d t = Inr t' \<Longrightarrow> length (rows t') = length (rows t)"
  by (auto simp add: rename_column_def split: option.splits if_splits)

lemma exec_rows:
  assumes "exec e tn stmt = Inr e'" and "conn e tn = Some t"
    and "\<And>t'. stmt t = Inr t' \<Longrightarrow> length (rows t') = length (rows t)"
  shows "\<exists>t'. conn e' tn = Some t' \<and> length (rows t') = length (rows t)"
  using assms by (auto simp add: exec_def split: sum.splits)


lemma date_rows_affected:
  assumes run: "clean_date_column nt e tn cn = (Inr n, e')" and t: "conn e tn = Some t"
  shows "n = length (rows t) \<and> get_row_count e' tn = Inr n"
proof -
  from run obtain e1 e2 e3 where
    s1: "exec e tn (add_column_if_not_exists ''_cleaned_date'' VARCHAR) = Inr e1" and
    s2: "exec e1 tn (update_cleaned_date nt cn) = Inr e2" and
    s3: "exec e2 tn (drop_column cn) = Inr e3" and
    s4: "exec e3 tn (rename_column ''_cleaned_date'' cn) = Inr e'" and
    s5: "get_row_count e' tn = Inr n"
    by (auto simp add: clean_date_column_def split: sum.splits)
  from exec_rows [OF s1 t] add_column_rows obtain t1 where
    t1: "conn e1 tn = Some t1" "length (rows t1) = length (rows t)" by blast
  from exec_rows [OF s2 t1(1)] update_cleaned_date_rows obtain t2 where
    t2: "conn e2 tn = Some t2" "length (rows t2) = length (rows t1)" by blast
  from exec_rows [OF s3 t2(1)] drop_column_rows obtain t3 where
    t3: "conn e3 tn = Some t3" "length (rows t3) = length (rows t2)" by blast
  from exec_rows [OF s4 t3(1)] rename_column_rows obtain t4 where
    t4: "conn e' tn = Some t4" "length (rows t4) = length (rows t3)" by blast
  from s5 t4 t3 t2 t1 show ?thesis
    by (simp add: get_row_count_def)
qed

lemma amount_rows_affected:
  assumes run: "clean_amount_column e tn cn = (Inr n, e')" and t: "conn e tn = Some t"
    and ty: "typeof_first e tn cn = Inr ct" and pass: "\<not> detected_numeric ct"
  shows "n = length (rows t) \<and> get_row_count e' tn = Inr n"
proof -
  from run ty pass obtain e1 e2 e3 where
    s1: "exec e tn (add_column_if_not_exists ''_cleaned_amount'' DOUBLE) = Inr e1" and
    s2: "exec e1 tn (update_cleaned_amount cn) = Inr e2" and
    s3: "exec e2 tn (drop_column cn) = Inr e3" and
    s4: "exec e3 tn (rename_column ''_cleaned_amount'' cn) = Inr e'" and
    s5: "get_row_count e' tn = Inr n"
    by (auto simp add: clean_amount_column_def split: sum.splits)
  from exec_rows [OF s1 t] add_column_rows obtain t1 where
    t1: "conn e1 tn = Some t1" "length (rows t1) = length (rows t)" by blast
  from exec_rows [OF s2 t1(1)] update_cleaned_amount_rows obtain t2 where
    t2: "conn e2 tn = Some t2" "length (rows t2) = length (rows t1)" by blast
  from exec_rows [OF s3 t2(1)] drop_column_rows obtain t3 where
    t3: "conn e3 tn = Some t3" "length (rows t3) = length (rows t2)" by blast
  from exec_rows [OF s4 t3(1)] rename_column_rows obtain t4 where
    t4: "conn e' tn = Some t4" "length (rows t4) = length (rows t3)" by blast
  from s5 t4 t3 t2 t1 show ?thesis
    by (simp add: get_row_count_def)
qed

text \<open>When each of the four statements succeeds.\<close>

lemma exec_Inr:
  "conn e tn = Some t \<Longrightarrow> stmt t = Inr t' \<Longrightarrow>
   exec e tn stmt = Inr (e\<lparr>conn := (conn e)(tn \<mapsto> t')\<rparr>)"
  by (simp add: exec_def)

lemma add_column_ok:
  assumes "c \<notin> set (col_names t)"
  shows "\<exists>t'. add_column_if_not_exists c ty t = Inr t' \<and> cols t' = cols t @ [(c, ty)] \<and>
              length (rows t') = length (rows t)"
  using assms by (simp add: add_column_if_not_exists_def)

lemma update_set_ok:
  assumes "c \<in> set (col_names t)"
  shows "\<exists>t'. update_set c f t = Inr t' \<and> cols t' = cols t \<and>
              length (rows t') = length (rows t)"
proof -
  from assms obtain j where "index_of c (col_names t) = Some j"
    using index_of_mem by fastforce
  then show ?thesis by (simp add: update_set_def)
qed

lemma drop_column_ok:
  assumes d: "distinct (col_names t)" and c: "c \<in> set (col_names t)" and two: "2 \<le> length (cols t)"
  shows "\<exists>t'. drop_column c t = Inr t' \<and> set (col_names t') = set (col_names t) - {c} \<and>
              distinct (col_names t') \<and> length (rows t') = length (rows t)"
proof -
  from c obtain i where i: "index_of c (col_names t) = Some i"
    using index_of_mem by fastforce
  then have il: "i < length (col_names t)" and ic: "col_names t ! i = c"
    using index_of_Some by fastforce+
  from remove_nth_distinct [OF d il] ic have
    r: "set (remove_nth i (col_names t)) = set (col_names t) - {c}"
       "distinct (remove_nth i (col_names t))"
    by simp_all
  have n: "col_names (t\<lparr>cols := remove_nth i (cols t), rows := map (remove_nth i) (rows t)\<rparr>)
             = remove_nth i (col_names t)"
    by (simp add: col_names_def map_remove_nth)
  from i two have
    "drop_column c t = Inr (t\<lparr>cols := remove_nth i (cols t), rows := map (remove_nth i) (rows t)\<rparr>)"
    by (simp add: drop_column_def)
  with r n show ?thesis by simp
qed

lemma rename_column_ok:
  assumes "c \<in> set (col_names t)" and "d \<notin> set (col_names t)"
  shows "\<exists>t'. rename_column c d t = Inr t' \<and> length (rows t') = length (rows t)"
proof -
  from assms(1) obtain i where "index_of c (col_names t) = Some i"
    using index_of_mem by fastforce
  with assms(2) show ?thesis by (simp add: rename_column_def)
qed

lemma exec_conn:
  "conn e tn = Some t \<Longrightarrow> stmt t = Inr t' \<Longrightarrow>
   \<exists>e'. exec e tn stmt = Inr e' \<and> conn e' tn = Some t'"
  by (simp add: exec_def)

text \<open>The pass shared by the two cleaners: add the temporary column, fill it,
  drop the original, rename.  It goes through on a table with distinct column
  names that has the column and does not yet have the temporary one, provided
  the UPDATE is accepted.\<close>

lemma cleaning_pass:
  fixes t :: table
  assumes t: "conn e tn = Some t" and d: "distinct (col_names t)"
    and fresh: "tmp \<notin> set (col_names t)" and c: "cn \<in> set (col_names t)"
    and upd: "\<And>t1. cols t1 = cols t @ [(tmp, ty)] \<Longrightarrow>
                \<exists>t2. upd t1 = Inr t2 \<and> cols t2 = cols t1 \<and> length (rows t2) = length (rows t1)"
  shows "\<exists>e1 e2 e3 e4.
           exec e tn (add_column_if_not_exists tmp ty) = Inr e1 \<and>
           exec e1 tn upd = Inr e2 \<and>
           exec e2 tn (drop_column cn) = Inr e3 \<and>
           exec e3 tn (rename_column tmp cn) = Inr e4 \<and>
           get_row_count e4 tn = Inr (length (rows t))"
proof -
  from add_column_ok [OF fresh] obtain t1 where
    t1: "add_column_if_not_exists tmp ty t = Inr t1" "cols t1 = cols t @ [(tmp, ty)]"
        "length (rows t1) = length (rows t)"
    by blast
  from exec_conn [where stmt = "add_column_if_not_exists tmp ty", OF t t1(1)] obtain e1 where
    e1: "exec e tn (add_column_if_not_exists tmp ty) = Inr e1" "conn e1 tn = Some t1"
    by blast
  from upd [OF t1(2)] obtain t2 where
    t2: "upd t1 = Inr t2" "cols t2 = cols t1" "length (rows t2) = length (rows t1)"
    by blast
  from exec_conn [where stmt = upd, OF e1(2) t2(1)] obtain e2 where
    e2: "exec e1 tn upd = Inr e2" "conn e2 tn = Some t2"
    by blast
  from t1(2) t2(2) have n2: "col_names t2 = col_names t @ [tmp]"
    by (simp add: col_names_def)
  from c fresh have ne: "cn \<noteq> tmp" by blast
  from n2 d fresh have d2: "distinct (col_names t2)" by simp
  from n2 c have c2: "cn \<in> set (col_names t2)" by simp
  from c have "col_names t \<noteq> []" by auto
  then have "1 \<le> length (cols t)" by (cases "cols t") (simp_all add: col_names_def)
  with t1(2) t2(2) have two: "2 \<le> length (cols t2)" by simp
  from drop_column_ok [OF d2 c2 two] obtain t3 where
    t3: "drop_column cn t2 = Inr t3" "set (col_names t3) = set (col_names t2) - {cn}"
        "length (rows t3) = length (rows t2)"
    by blast
  from exec_conn [where stmt = "drop_column cn", OF e2(2) t3(1)] obtain e3 where
    e3: "exec e2 tn (drop_column cn) = Inr e3" "conn e3 tn = Some t3"
    by blast
  from t3(2) n2 ne have m3: "tmp \<in> set (col_names t3)" "cn \<notin> set (col_names t3)"
    by auto
  from rename_column_ok [OF m3] obtain t4 where
    t4: "rename_column tmp cn t3 = Inr t4" "length (rows t4) = length (rows t3)"
    by blast
  from exec_conn [where stmt = "rename_column tmp cn", OF e3(2) t4(1)] obtain e4 where
    e4: "exec e3 tn (rename_column tmp cn) = Inr e4" "conn e4 tn = Some t4"
    by blast
  from e4(2) t4(2) t3(3) t2(3) t1(3) have "get_row_count e4 tn = Inr (length (rows t))"
    by (simp add: get_row_count_def)
  with e1(1) e2(1) e3(1) e4(1) show ?thesis by blast
qed

lemma update_cleaned_date_ok:
  fixes t t1 :: table
  assumes "cols t1 = cols t @ [(''_cleaned_date'', ty)]" and "cn \<in> set (col_names t)"
  shows "\<exists>t2. update_cleaned_date nt cn t1 = Inr t2 \<and> cols t2 = cols t1 \<and>
              length (rows t2) = length (rows t1)"
proof -
  from assms have n1: "col_names t1 = col_names t @ [''_cleaned_date'']"
    by (simp add: col_names_def)
  with assms(2) have "cn \<in> set (col_names t1)" by simp
  then obtain i where i: "index_of cn (col_names t1) = Some i"
    using index_of_mem by fastforce
  from n1 have "''_cleaned_date'' \<in> set (col_names t1)" by simp
  from update_set_ok [OF this] i show ?thesis
    by (simp add: update_cleaned_date_def)
qed

lemma update_cleaned_amount_ok:
  fixes t t1 :: table
  assumes "cols t1 = cols t @ [(''_cleaned_amount'', ty)]"
    and "map_of (cols t) cn = Some VARCHAR"
  shows "\<exists>t2. update_cleaned_amount cn t1 = Inr t2 \<and> cols t2 = cols t1 \<and>
              length (rows t2) = length (rows t1)"
proof -
  from assms have m: "map_of (cols t1) cn = Some VARCHAR"
    by (simp add: map_add_Some_iff)
  from assms(1) have n1: "col_names t1 = col_names t @ [''_cleaned_amount'']"
    by (simp add: col_names_def)
  from m have "cn \<in> fst ` set (cols t1)"
    by (metis domI dom_map_of_conv_image_fst)
  then have "cn \<in> set (col_names t1)" by (simp add: col_names_def)
  then obtain i where i: "index_of cn (col_names t1) = Some i"
    using index_of_mem by fastforce
  then have "map_of (cols t1) cn = Some (snd (cols t1 ! i))"
    by (simp add: col_names_def index_of_map_of)
  with m have v: "snd (cols t1 ! i) = VARCHAR" by simp
  from n1 have "''_cleaned_amount'' \<in> set (col_names t1)" by simp
  from update_set_ok [OF this] i v show ?thesis
    by (simp add: update_cleaned_amount_def)
qed

lemma date_returns:
  assumes t: "conn e tn = Some t" and d: "distinct (col_names t)"
    and fresh: "''_cleaned_date'' \<notin> set (col_names t)" and c: "cn \<in> set (col_names t)"
  shows "fst (clean_date_column nt e tn cn) = Inr (length (rows t))"
proof -
  from cleaning_pass [OF t d fresh c, of VARCHAR "update_cleaned_date nt cn"]
    update_cleaned_date_ok [OF _ c]
  obtain e1 e2 e3 e4 where
    "exec e tn (add_column_if_not_exists ''_cleaned_date'' VARCHAR) = Inr e1"
    "exec e1 tn (update_cleaned_date nt cn) = Inr e2"
    "exec e2 tn (drop_column cn) = Inr e3"
    "exec e3 tn (rename_column ''_cleaned_date'' cn) = Inr e4"
    "get_row_count e4 tn = Inr (length (rows t))"
    by blast
  then show ?thesis by (simp add: clean_date_column_def)
qed

lemma amount_returns:
  assumes t: "conn e tn = Some t" and d: "distinct (col_names t)"
    and fresh: "''_cleaned_amount'' \<notin> set (col_names t)"
    and ty: "map_of (cols t) cn = Some VARCHAR"
  shows "fst (clean_amount_column e tn cn) = Inr (length (rows t))"
proof -
  from ty have "cn \<in> fst ` set (cols t)"
    by (metis domI dom_map_of_conv_image_fst)
  then have c: "cn \<in> set (col_names t)" by (simp add: col_names_def)
  then obtain i where i: "index_of cn (col_names t) = Some i"
    using index_of_mem by fastforce
  then have "map_of (cols t) cn = Some (snd (cols t ! i))"
    by (simp add: col_names_def index_of_map_of)
  with ty have v: "snd (cols t ! i) = VARCHAR" by simp
  from t i v have chk: "typeof_first e tn cn = Inr (if rows t = [] then None else Some ''VARCHAR'')"
    by (simp add: typeof_first_def)
  have nd: "\<not> detected_numeric (if rows t = [] then None else Some ''VARCHAR'')"
    by (simp add: detected_numeric_def)
  from cleaning_pass [OF t d fresh c, of DOUBLE "update_cleaned_amount cn"]
    update_cleaned_amount_ok [OF _ ty]
  obtain e1 e2 e3 e4 where
    "exec e tn (add_column_if_not_exists ''_cleaned_amount'' DOUBLE) = Inr e1"
    "exec e1 tn (update_cleaned_amount cn) = Inr e2"
    "exec e2 tn (drop_column cn) = Inr e3"
    "exec e3 tn (rename_column ''_cleaned_amount'' cn) = Inr e4"
    "get_row_count e4 tn = Inr (length (rows t))"
    by blast
  with chk nd show ?thesis by (simp add: clean_amount_column_def)
qed

text \<open>
  Claim C10.  For a table \<open>t\<close> of the store: whenever \<open>clean_date_column\<close>
  returns, and whenever \<open>clean_amount_column\<close> returns after the numeric
  check did not stop it, the number returned is the number of rows of \<open>t\<close>,
  which is also the number of rows of the table afterwards, whatever the
  cells became.  And the two calls do return: \<open>clean_date_column\<close> on any
  column of a table with distinct column names and no column
  \<open>_cleaned_date\<close>, \<open>clean_amount_column\<close> on any text column of a table
  with distinct column names and no column \<open>_cleaned_amount\<close>.
\<close>

theorem rows_affected_is_row_count:
  assumes t: "conn e tn = Some t"
  shows "(\<forall>n e'. clean_date_column nt e tn cn = (Inr n, e') \<longrightarrow>
            n = length (rows t) \<and> get_row_count e' tn = Inr n) \<and>
         (\<forall>n e' ct. clean_amount_column e tn cn = (Inr n, e') \<and>
              typeof_first e tn cn = Inr ct \<and> \<not> detected_numeric ct \<longrightarrow>
            n = length (rows t) \<and> get_row_count e' tn = Inr n) \<and>
         (distinct (col_names t) \<and> ''_cleaned_date'' \<notin> set (col_names t) \<and>
            cn \<in> set (col_names t) \<longrightarrow>
            fst (clean_date_column nt e tn cn) = Inr (length (rows t))) \<and>
         (distinct (col_names t) \<and> ''_cleaned_amount'' \<notin> set (col_names t) \<and>
            map_of (cols t) cn = Some VARCHAR \<longrightarrow>
            fst (clean_amount_column e tn cn) = Inr (length (rows t)))"
proof (intro conjI allI impI)
  fix n e'
  assume "clean_date_column nt e tn cn = (Inr n, e')"
  from date_rows_affected [OF this t]
  show "n = length (rows t)" and "get_row_count e' tn = Inr n" by simp_all
next
  fix n e' ct
  assume a: "clean_amount_column e tn cn = (Inr n, e') \<and>
             typeof_first e tn cn = Inr ct \<and> \<not> detected_numeric ct"
  then have "clean_amount_column e tn cn = (Inr n, e')"
    and "typeof_first e tn cn = Inr ct" and "\<not> detected_numeric ct" by simp_all
  from amount_rows_affected [OF this(1) t this(2) this(3)]
  show "n = length (rows t)" and "get_row_count e' tn = Inr n" by simp_all
next
  assume "distinct (col_names t) \<and> ''_cleaned_date'' \<notin> set (col_names t) \<and>
          cn \<in> set (col_names t)"
  then have "distinct (col_names t)" and "''_cleaned_date'' \<notin> set (col_names t)"
    and "cn \<in> set (col_names t)" by simp_all
  from date_returns [OF t this]
  show "fst (clean_date_column nt e tn cn) = Inr (length (rows t))" .
next
  assume "distinct (col_names t) \<and> ''_cleaned_amount'' \<notin> set (col_names t) \<and>
          map_of (cols t) cn = Some VARCHAR"
  then have "distinct (col_names t)" and "''_cleaned_amount'' \<notin> set (col_names t)"
    and "map_of (cols t) cn = Some VARCHAR" by simp_all
  from amount_returns [OF t this]
  show "fst (clean_amount_column e tn cn) = Inr (length (rows t))" .
qed

theorem rows_affected_is_row_count_witness:
  "fst (clean_date_column (\<lambda>x. []) (engine_with ''t'' demo_dates) ''t'' ''date'') = Inr 5 \<and>
   fst (clean_amount_column (engine_with ''t'' demo_amounts) ''t'' ''amount'') = Inr 4 \<and>
   length (rows demo_dates) = 5 \<and> length (rows demo_amounts) = 4"
proof -
  have d: "conn (engine_with ''t'' demo_dates) ''t'' = Some demo_dates"
    and a: "conn (engine_with ''t'' demo_amounts) ''t'' = Some demo_amounts"
    by (simp_all add: engine_with_def)
  have hd: "distinct (col_names demo_dates) \<and> ''_cleaned_date'' \<notin> set (col_names demo_dates) \<and>
            ''date'' \<in> set (col_names demo_dates)"
    by (simp add: col_names_def demo_dates_def)
  have ha: "distinct (col_names demo_amounts) \<and>
            ''_cleaned_amount'' \<notin> set (col_names demo_amounts) \<and>
            map_of (cols demo_amounts) ''amount'' = Some VARCHAR"
    by (simp add: col_names_def demo_amounts_def)
  have ld: "length (rows demo_dates) = 5" by (simp add: demo_dates_def)
  have la: "length (rows demo_amounts) = 4" by (simp add: demo_amounts_def)
  from rows_affected_is_row_count [OF d, of "\<lambda>x. []" "''date''"] hd
  have "fst (clean_date_column (\<lambda>x. []) (engine_with ''t'' demo_dates) ''t'' ''date'')
          = Inr (length (rows demo_dates))"
    by blast
  moreover
  from rows_affected_is_row_count [OF a, of "\<lambda>x. []" "''amount''"] ha
  have "fst (clean_amount_column (engine_with ''t'' demo_amounts) ''t'' ''amount'')
          = Inr (length (rows demo_amounts))"
    by blast
  ultimately show ?thesis using ld la by simp
qed

end
